theory Spec2Isabelle
  imports Main
begin

section \<open>Python strings\<close>

text \<open>
  A Python \<open>str\<close> is modelled as a \<open>string\<close>, a list of 8-bit characters read as the code
  points U+0000 to U+00FF. \<open>is_space\<close> is the whitespace test shared by \<open>str.split()\<close>
  and the regular-expression class \<open>\s\<close>: on this range, the code points 0x09 to 0x0D,
  0x1C to 0x1F, 0x20, 0x85 and 0xA0.
\<close>

definition is_space :: "char \<Rightarrow> bool" where
  "is_space c =
     (c \<in> set [CHR 0x09, CHR 0x0A, CHR 0x0B, CHR 0x0C, CHR 0x0D,
                CHR 0x1C, CHR 0x1D, CHR 0x1E, CHR 0x1F, CHR 0x20, CHR 0x85, CHR 0xA0])"

text \<open>
  \<open>s.split()\<close> with no argument: the maximal runs of non-whitespace characters, in order.
  \<open>split_acc cur s\<close> scans \<open>s\<close> with the token read so far in \<open>cur\<close>.
\<close>

fun split_acc :: "string \<Rightarrow> string \<Rightarrow> string list" where
  "split_acc cur [] = (if cur = [] then [] else [cur])"
| "split_acc cur (c # cs) =
     (if is_space c
      then (if cur = [] then split_acc [] cs else cur # split_acc [] cs)
      else split_acc (cur @ [c]) cs)"

definition split :: "string \<Rightarrow> string list" where
  "split s = split_acc [] s"

text \<open>\<open>sep.join(xs)\<close>.\<close>

fun join :: "string \<Rightarrow> string list \<Rightarrow> string" where
  "join sep [] = []"
| "join sep [x] = x"
| "join sep (x # y # ys) = x @ sep @ join sep (y # ys)"

text \<open>\<open>s.rstrip('.')\<close>: every trailing period is removed.\<close>

definition rstrip_dot :: "string \<Rightarrow> string" where
  "rstrip_dot s = rev (dropWhile (\<lambda>c. c = CHR ''.'') (rev s))"

section \<open>Author formatting\<close>

text \<open>
  \<open>initials_of parts\<close> is \<open>'. '.join([p[0] for p in parts[:-1]])\<close>. The tokens that
  \<open>split\<close> returns are never empty (lemma \<open>split_nonempty\<close>), so \<open>p[0]\<close> never raises there.
\<close>

definition initials_of :: "string list \<Rightarrow> string" where
  "initials_of parts = join ''. '' (map (\<lambda>p. [hd p]) (butlast parts))"

text \<open>The body of the loop of the first branch of \<open>format_authors\<close> (one entry of \<open>formatted\<close>).\<close>

definition formatted_entry :: "string \<Rightarrow> string" where
  "formatted_entry author =
     (let parts = split author in
      if length parts > 1
      then (let last_name = last parts; initials = initials_of parts
            in last_name @ '', '' @ initials @ ''.'')
      else author)"

definition format_authors :: "string list \<Rightarrow> int \<Rightarrow> string" where
  "format_authors authors max_authors =
     (if authors = [] then ''Unknown Authors''
      else if int (length authors) \<le> max_authors then
        (let formatted = map formatted_entry authors;
             result =
               (if length formatted = 1 then formatted ! 0
                else if length formatted = 2 then formatted ! 0 @ '' and '' @ formatted ! 1
                else join '', '' (butlast formatted) @ '', and '' @ last formatted)
         in rstrip_dot result)
      else
        (let parts = split (authors ! 0) in
         if length parts > 1
         then (let last_name = last parts; initials = initials_of parts @ ''.''
               in last_name @ '', '' @ initials @ '' et al'')
         else authors ! 0 @ '' et al''))"

section \<open>Records and their formatting\<close>

text \<open>
  The values the dictionaries of the program hold in their scalar fields: \<open>None\<close>, an
  integer (a citation count), or a string. \<open>py_str\<close> is what an f-string writes for such
  a value, \<open>py_truthy\<close> its truth value.
\<close>

datatype pyval = PNone | PInt int | PStr string

datatype py_error = KeyError string

function nat_digits :: "nat \<Rightarrow> string" where
  "nat_digits n =
     (if n < 10 then [''0123456789'' ! n]
      else nat_digits (n div 10) @ [''0123456789'' ! (n mod 10)])"
  by pat_completeness auto
termination
  by (relation "measure (\<lambda>n. n)") auto

declare nat_digits.simps [simp del]

definition str_int :: "int \<Rightarrow> string" where
  "str_int i = (if i < 0 then CHR ''-'' # nat_digits (nat (- i)) else nat_digits (nat i))"

fun py_str :: "pyval \<Rightarrow> string" where
  "py_str PNone = ''None''"
| "py_str (PInt i) = str_int i"
| "py_str (PStr s) = s"

fun py_truthy :: "pyval \<Rightarrow> bool" where
  "py_truthy PNone = False"
| "py_truthy (PInt i) = (i \<noteq> 0)"
| "py_truthy (PStr s) = (s \<noteq> [])"

text \<open>
  A paper record is a dictionary with keys among \<open>title\<close>, \<open>authors\<close>, \<open>year\<close>, \<open>venue\<close>
  and \<open>citations\<close>. It is modelled as a record of optional fields: \<open>None\<close> is an absent key,
  so \<open>d.get(k)\<close> is the field and \<open>d[k]\<close> raises \<open>KeyError\<close> when the field is \<open>None\<close>.
  The value of \<open>authors\<close> is a list of strings. The empty dictionary is \<open>empty_info\<close>.
\<close>

record paper_info =
  title :: "pyval option"
  authors :: "string list option"
  year :: "pyval option"
  venue :: "pyval option"
  citations :: "pyval option"

definition empty_info :: paper_info where
  "empty_info = \<lparr>title = None, authors = None, year = None, venue = None, citations = None\<rparr>"

text \<open>
  The truth value of a variable that holds a record or \<open>None\<close>: false for \<open>None\<close> and for
  the empty dictionary.
\<close>

fun info_truthy :: "paper_info option \<Rightarrow> bool" where
  "info_truthy None = False"
| "info_truthy (Some d) = (d \<noteq> empty_info)"

definition format_output :: "paper_info option \<Rightarrow> int \<Rightarrow> py_error + string" where
  "format_output paper_info max_authors =
     (case paper_info of
        None \<Rightarrow> Inr ''Error: Could not fetch paper information''
      | Some d \<Rightarrow>
         if \<not> info_truthy (Some d) then Inr ''Error: Could not fetch paper information''
         else
        (case title d of None \<Rightarrow> Inl (KeyError ''title'') | Some t \<Rightarrow>
         (case authors d of None \<Rightarrow> Inl (KeyError ''authors'') | Some a \<Rightarrow>
         (case year d of None \<Rightarrow> Inl (KeyError ''year'') | Some y \<Rightarrow>
         (case venue d of None \<Rightarrow> Inl (KeyError ''venue'') | Some v \<Rightarrow>
         (case citations d of None \<Rightarrow> Inl (KeyError ''citations'') | Some c \<Rightarrow>
           Inr (''**'' @ py_str t @ ''** '' @ format_authors a max_authors @ ''. '' @ py_str y
                @ ''. '' @ py_str v @ ''. Citations: '' @ py_str c)))))))"

definition get_test_paper_info :: "string \<Rightarrow> paper_info option" where
  "get_test_paper_info test_id =
     (if test_id = ''1'' then Some
        \<lparr>title = Some (PStr ''Attention Is All You Need''),
         authors = Some [''Ashish Vaswani'', ''Noam Shazeer'', ''Niki Parmar'',
           ''Jakob Uszkoreit'', ''Llion Jones'', ''Aidan N. Gomez'', ''Lukasz Kaiser'',
           ''Illia Polosukhin''],
         year = Some (PStr ''2017''),
         venue = Some (PStr ''NeurIPS''),
         citations = Some (PInt 98234)\<rparr>
      else if test_id = ''2'' then Some
        \<lparr>title = Some (PStr
           ''BERT: Pre-training of Deep Bidirectional Transformers for Language Understanding''),
         authors = Some [''Jacob Devlin'', ''Ming-Wei Chang'', ''Kenton Lee'',
           ''Kristina Toutanova''],
         year = Some (PStr ''2019''),
         venue = Some (PStr ''NAACL''),
         citations = Some (PInt 67890)\<rparr>
      else if test_id = ''3'' then Some
        \<lparr>title = Some (PStr
           ''Learning Transferable Visual Models From Natural Language Supervision''),
         authors = Some [''Alec Radford'', ''Jong Wook Kim'', ''Chris Hallacy'',
           ''Aditya Ramesh'', ''Gabriel Goh'', ''Sandhini Agarwal'', ''Girish Sastry'',
           ''Amanda Askell''],
         year = Some (PStr ''2021''),
         venue = Some (PStr ''ICML''),
         citations = Some (PInt 15678)\<rparr>
      else None)"

section \<open>URL classification\<close>

text \<open>
  The regular expressions of \<open>parse_url\<close> use literals, alternatives of literals, an
  optional group, and \<open>+\<close> on character classes. \<open>ms r s\<close> lists the ways \<open>r\<close> matches
  at the start of \<open>s\<close>, each as the matched text and the rest of \<open>s\<close>, in the order a
  backtracking matcher tries them: the first alternative before the second, the optional
  group before its omission, the longest repetition before the shorter ones.
\<close>

datatype re =
    Lit string
  | Plus "char \<Rightarrow> bool"
  | Alt re re
  | Opt re
  | Seq re re

fun ms :: "re \<Rightarrow> string \<Rightarrow> (string \<times> string) list" where
  "ms (Lit l) s = (if take (length l) s = l then [(l, drop (length l) s)] else [])"
| "ms (Plus P) s =
     map (\<lambda>k. (take k s, drop k s)) (rev [1 ..< Suc (length (takeWhile P s))])"
| "ms (Alt a b) s = ms a s @ ms b s"
| "ms (Opt a) s = ms a s @ [([], s)]"
| "ms (Seq a b) s =
     concat (map (\<lambda>(m1, r1). map (\<lambda>(m2, r2). (m1 @ m2, r2)) (ms b r1)) (ms a s))"

text \<open>
  Every pattern of \<open>parse_url\<close> is a prefix followed by its one capturing group.
  \<open>re_match pre grp s\<close> is group 1 of the first match at the start of \<open>s\<close>, and
  \<open>re_search pre grp s\<close> is \<open>re.search(...).group(1)\<close>: the match at the leftmost
  position that has one, \<open>None\<close> when no position has one.
\<close>

definition re_match :: "re \<Rightarrow> re \<Rightarrow> string \<Rightarrow> string option" where
  "re_match pre grp s =
     (case concat (map (\<lambda>(m1, r1). map fst (ms grp r1)) (ms pre s)) of
        [] \<Rightarrow> None
      | g # _ \<Rightarrow> Some g)"

fun re_search :: "re \<Rightarrow> re \<Rightarrow> string \<Rightarrow> string option" where
  "re_search pre grp [] = re_match pre grp []"
| "re_search pre grp (c # cs) =
     (case re_match pre grp (c # cs) of
        Some g \<Rightarrow> Some g
      | None \<Rightarrow> re_search pre grp cs)"

text \<open>The character classes \<open>\d\<close>, \<open>[a-f0-9]\<close> and \<open>[A-Za-z0-9_\-]\<close>.\<close>

definition is_digit :: "char \<Rightarrow> bool" where
  "is_digit c = (c \<in> set ''0123456789'')"

definition is_hex_lower :: "char \<Rightarrow> bool" where
  "is_hex_lower c = (c \<in> set ''abcdef0123456789'')"

definition is_openreview_id_char :: "char \<Rightarrow> bool" where
  "is_openreview_id_char c =
     (c \<in> set ''ABCDEFGHIJKLMNOPQRSTUVWXYZabcdefghijklmnopqrstuvwxyz0123456789_-'')"

text \<open>\<open>arxiv\.org/(?:abs|pdf)/(\d+\.\d+)\<close>\<close>

definition arxiv_pattern :: "string \<Rightarrow> string option" where
  "arxiv_pattern =
     re_search (Seq (Lit ''arxiv.org/'') (Seq (Alt (Lit ''abs'') (Lit ''pdf'')) (Lit ''/'')))
       (Seq (Plus is_digit) (Seq (Lit ''.'') (Plus is_digit)))"

text \<open>\<open>semanticscholar\.org/paper/(?:[^/]+/)?([a-f0-9]+)\<close>\<close>

definition ss_pattern :: "string \<Rightarrow> string option" where
  "ss_pattern =
     re_search
       (Seq (Lit ''semanticscholar.org/paper/'')
          (Opt (Seq (Plus (\<lambda>c. c \<noteq> CHR ''/'')) (Lit ''/''))))
       (Plus is_hex_lower)"

text \<open>\<open>openreview\.net/(?:forum|pdf)\?id=([A-Za-z0-9_\-]+)\<close>\<close>

definition or_pattern :: "string \<Rightarrow> string option" where
  "or_pattern =
     re_search
       (Seq (Lit ''openreview.net/'') (Seq (Alt (Lit ''forum'') (Lit ''pdf'')) (Lit ''?id='')))
       (Plus is_openreview_id_char)"

text \<open>\<open>doi\.org/(10\.\d+/[^\s]+)\<close>\<close>

definition doi_pattern :: "string \<Rightarrow> string option" where
  "doi_pattern =
     re_search (Lit ''doi.org/'')
       (Seq (Lit ''10.'') (Seq (Plus is_digit) (Seq (Lit ''/'') (Plus (\<lambda>c. \<not> is_space c)))))"

text \<open>
  \<open>parse_url\<close> returns the pair of the source tag and the paper id, or \<open>(None, None)\<close>,
  which is \<open>None\<close> here.
\<close>

definition parse_url :: "string \<Rightarrow> (string \<times> string) option" where
  "parse_url url =
     (case arxiv_pattern url of Some g \<Rightarrow> Some (''arxiv'', g) | None \<Rightarrow>
     (case ss_pattern url of Some g \<Rightarrow> Some (''semantic_scholar'', g) | None \<Rightarrow>
     (case or_pattern url of Some g \<Rightarrow> Some (''openreview'', g) | None \<Rightarrow>
     (case doi_pattern url of Some g \<Rightarrow> Some (''doi'', g) | None \<Rightarrow> None))))"

section \<open>The command-line program\<close>

text \<open>The parsed command line.\<close>

record args =
  url :: string
  max_authors :: int
  test :: bool
  google_scholar :: bool
  use_google_scholar_citations :: bool
  debug :: bool

text \<open>
  The first note of the reply of the OpenReview service, as \<open>fetch_openreview_info\<close> reads
  it: the values of \<open>content.get('title')\<close>, \<open>content.get('authors')\<close> and
  \<open>note.get('invitation')\<close>, each \<open>None\<close> when the key is absent.
\<close>

record openreview_note =
  content_title :: "pyval option"
  content_authors :: "string list option"
  invitation :: "string option"

text \<open>
  The functions that query a remote service are parameters of the model: \<open>world\<close> gives,
  for each of them, the value it returns for an argument. Each catches its own exceptions
  and returns \<open>None\<close> (a fetch) or \<open>'N/A'\<close> (a citation lookup) instead, so each is a total
  function. \<open>main\<close> calls each of them at most once, and calls
  \<open>get_citations_from_semantic_scholar\<close> with \<open>arxiv_id\<close> only;
  \<open>get_citations_from_semantic_scholar_title\<close> is the same function called with \<open>title\<close>,
  as \<open>fetch_openreview_info\<close> calls it. \<open>openreview_notes\<close> is the request of
  \<open>fetch_openreview_info\<close>: the first note of the reply, \<open>None\<close> when the status is not
  200, the reply has no note, or an exception is raised. Every call is recorded, in order,
  as a \<open>call\<close>.
\<close>

record world =
  fetch_arxiv_info :: "string \<Rightarrow> paper_info option"
  get_citations_from_semantic_scholar :: "string \<Rightarrow> pyval"
  get_citations_from_google_scholar :: "pyval \<Rightarrow> pyval"
  search_google_scholar :: "string \<Rightarrow> paper_info option"
  get_semantic_scholar_info :: "string \<Rightarrow> paper_info option"
  openreview_notes :: "string \<Rightarrow> openreview_note option"
  get_citations_from_semantic_scholar_title :: "pyval \<Rightarrow> pyval"

datatype call =
    Call_fetch_arxiv_info string
  | Call_get_citations_from_semantic_scholar string
  | Call_get_citations_from_google_scholar pyval
  | Call_search_google_scholar string
  | Call_get_semantic_scholar_info string
  | Call_fetch_openreview_info string
  | Call_get_citations_from_semantic_scholar_title pyval

text \<open>
  A step of \<open>main\<close> yields the calls made and either the exception raised or the value of
  \<open>paper_info\<close>.
\<close>

type_synonym fetched = "call list \<times> (py_error + paper_info option)"

text \<open>The branch \<open>source == 'arxiv'\<close> of \<open>main\<close>.\<close>

definition main_arxiv :: "args \<Rightarrow> world \<Rightarrow> string \<Rightarrow> fetched" where
  "main_arxiv a w paper_id =
     (let paper_info = fetch_arxiv_info w paper_id;
          log = [Call_fetch_arxiv_info paper_id]
      in case paper_info of
           None \<Rightarrow> (log, Inr None)
         | Some d \<Rightarrow>
           if info_truthy (Some d) \<and> citations d = Some (PStr ''N/A'') then
             (if use_google_scholar_citations a then
                (case title d of
                   None \<Rightarrow> (log, Inl (KeyError ''title''))
                 | Some t \<Rightarrow>
                   (let c = get_citations_from_google_scholar w t;
                        log = log @ [Call_get_citations_from_google_scholar t]
                    in if c \<noteq> PStr ''N/A'' then (log, Inr (Some (d\<lparr>citations := Some c\<rparr>)))
                       else
                         (let c = get_citations_from_semantic_scholar w paper_id;
                              log = log @ [Call_get_citations_from_semantic_scholar paper_id]
                          in if c \<noteq> PStr ''N/A''
                             then (log, Inr (Some (d\<lparr>citations := Some c\<rparr>)))
                             else (log, Inr (Some d)))))
              else
                (let c = get_citations_from_semantic_scholar w paper_id;
                     log = log @ [Call_get_citations_from_semantic_scholar paper_id]
                 in if c \<noteq> PStr ''N/A'' then (log, Inr (Some (d\<lparr>citations := Some c\<rparr>)))
                    else
                      (case title d of
                         None \<Rightarrow> (log, Inl (KeyError ''title''))
                       | Some t \<Rightarrow>
                         (let c = get_citations_from_google_scholar w t;
                              log = log @ [Call_get_citations_from_google_scholar t]
                          in if c \<noteq> PStr ''N/A''
                             then (log, Inr (Some (d\<lparr>citations := Some c\<rparr>)))
                             else (log, Inr (Some d))))))
           else (log, Inr (Some d)))"

text \<open>
  \<open>paper_info.get('title')\<close> as a condition: the key is present and its value is true.
\<close>

definition title_truthy :: "paper_info \<Rightarrow> bool" where
  "title_truthy d = (case title d of None \<Rightarrow> False | Some t \<Rightarrow> py_truthy t)"

text \<open>
  The statements shared by three branches: query the citation search engine with the
  title and store the count it returns unless it is \<open>'N/A'\<close>.
\<close>

definition update_from_google_scholar :: "world \<Rightarrow> call list \<Rightarrow> paper_info \<Rightarrow> fetched" where
  "update_from_google_scholar w log d =
     (case title d of
        None \<Rightarrow> (log, Inl (KeyError ''title''))
      | Some t \<Rightarrow>
        (let gs_citations = get_citations_from_google_scholar w t;
             log = log @ [Call_get_citations_from_google_scholar t]
         in if gs_citations \<noteq> PStr ''N/A''
            then (log, Inr (Some (d\<lparr>citations := Some gs_citations\<rparr>)))
            else (log, Inr (Some d))))"

text \<open>The branch \<open>source == 'semantic_scholar'\<close>.\<close>

definition main_semantic_scholar :: "args \<Rightarrow> world \<Rightarrow> string \<Rightarrow> fetched" where
  "main_semantic_scholar a w paper_id =
     (let paper_info = get_semantic_scholar_info w paper_id;
          log = [Call_get_semantic_scholar_info paper_id]
      in case paper_info of
           None \<Rightarrow> (log, Inr None)
         | Some d \<Rightarrow>
           if info_truthy (Some d) \<and> use_google_scholar_citations a \<and> title_truthy d
           then update_from_google_scholar w log d
           else (log, Inr (Some d)))"

text \<open>
  \<open>re.search(r'20\d{2}', venue)\<close>: the leftmost \<open>20\<close> followed by two digits, and
  \<open>sub in s\<close> for strings.
\<close>

fun search_year :: "string \<Rightarrow> string option" where
  "search_year (a # b # c # d # rest) =
     (if a = CHR ''2'' \<and> b = CHR ''0'' \<and> is_digit c \<and> is_digit d then Some [a, b, c, d]
      else search_year (b # c # d # rest))"
| "search_year s = None"

fun contains :: "string \<Rightarrow> string \<Rightarrow> bool" where
  "contains sub [] = (sub = [])"
| "contains sub (c # cs) = (take (length sub) (c # cs) = sub \<or> contains sub cs)"

text \<open>
  The values that \<open>fetch_openreview_info\<close> derives from the note: the title and the
  authors with their defaults, the year and the venue name inferred from the invitation
  string.
\<close>

definition openreview_title :: "openreview_note \<Rightarrow> pyval" where
  "openreview_title n = (case content_title n of None \<Rightarrow> PStr ''Unknown'' | Some x \<Rightarrow> x)"

definition openreview_authors :: "openreview_note \<Rightarrow> string list" where
  "openreview_authors n = (case content_authors n of None \<Rightarrow> [] | Some x \<Rightarrow> x)"

definition openreview_venue :: "openreview_note \<Rightarrow> string" where
  "openreview_venue n = (case invitation n of None \<Rightarrow> [] | Some x \<Rightarrow> x)"

definition openreview_year :: "openreview_note \<Rightarrow> string" where
  "openreview_year n =
     (case search_year (openreview_venue n) of None \<Rightarrow> ''N/A'' | Some x \<Rightarrow> x)"

definition openreview_venue_name :: "openreview_note \<Rightarrow> string" where
  "openreview_venue_name n =
     (if contains ''ICLR'' (openreview_venue n) then ''ICLR''
      else if contains ''NeurIPS'' (openreview_venue n) then ''NeurIPS''
      else if contains ''ICML'' (openreview_venue n) then ''ICML''
      else ''OpenReview'')"

text \<open>
  \<open>fetch_openreview_info\<close>: after its request and these derivations it looks the citation
  count up by title in Semantic Scholar, whatever the title is, and returns a record with
  all five fields. It yields its calls and its result.
\<close>

definition fetch_openreview_info :: "world \<Rightarrow> string \<Rightarrow> call list \<times> paper_info option" where
  "fetch_openreview_info w paper_id =
     (let log = [Call_fetch_openreview_info paper_id] in
      case openreview_notes w paper_id of
        None \<Rightarrow> (log, None)
      | Some n \<Rightarrow>
        (let citations_found = get_citations_from_semantic_scholar_title w (openreview_title n);
             log = log @ [Call_get_citations_from_semantic_scholar_title (openreview_title n)]
         in (log, Some \<lparr>title = Some (openreview_title n),
                        authors = Some (openreview_authors n),
                        year = Some (PStr (openreview_year n)),
                        venue = Some (PStr (openreview_venue_name n)),
                        citations = Some citations_found\<rparr>)))"

text \<open>The branch \<open>source == 'openreview'\<close>.\<close>

definition main_openreview :: "args \<Rightarrow> world \<Rightarrow> string \<Rightarrow> fetched" where
  "main_openreview a w paper_id =
     (case fetch_openreview_info w paper_id of (log, paper_info) \<Rightarrow>
        (case paper_info of
           None \<Rightarrow> (log, Inr None)
         | Some d \<Rightarrow>
           if info_truthy (Some d) \<and> title_truthy d then
             (if use_google_scholar_citations a \<or> citations d = Some (PStr ''N/A'')
              then update_from_google_scholar w log d
              else (log, Inr (Some d)))
           else (log, Inr (Some d))))"

text \<open>The branch \<open>source == 'doi'\<close>: the semantic index is queried with \<open>DOI:\<close> and the id.\<close>

definition main_doi :: "args \<Rightarrow> world \<Rightarrow> string \<Rightarrow> fetched" where
  "main_doi a w paper_id =
     (let paper_info = get_semantic_scholar_info w (''DOI:'' @ paper_id);
          log = [Call_get_semantic_scholar_info (''DOI:'' @ paper_id)]
      in case paper_info of
           None \<Rightarrow> (log, Inr None)
         | Some d \<Rightarrow>
           if info_truthy (Some d) \<and> use_google_scholar_citations a \<and> title_truthy d
           then update_from_google_scholar w log d
           else (log, Inr (Some d)))"

text \<open>
  The statements of \<open>main\<close> from \<open>paper_info = None\<close> to the last branch: the record that
  reaches the final test and the formatter.
\<close>

definition main_fetch :: "args \<Rightarrow> world \<Rightarrow> string \<Rightarrow> string \<Rightarrow> fetched" where
  "main_fetch a w source paper_id =
     (if source = ''arxiv'' then main_arxiv a w paper_id
      else if source = ''semantic_scholar'' then main_semantic_scholar a w paper_id
      else if source = ''openreview'' then main_openreview a w paper_id
      else if source = ''doi'' then main_doi a w paper_id
      else ([], Inr None))"

text \<open>
  What a run does, besides its calls: it prints one line on standard output and returns, or
  it prints lines on the error stream and exits with status 1, or it ends in an exception
  that nothing catches.
\<close>

datatype outcome = Printed string | Exit1 "string list" | Raised py_error

text \<open>\<open>output = format_output(paper_info, max_authors=args.max_authors); print(output)\<close>\<close>

definition print_output :: "args \<Rightarrow> paper_info option \<Rightarrow> outcome" where
  "print_output a paper_info =
     (case format_output paper_info (max_authors a) of
        Inl e \<Rightarrow> Raised e
      | Inr output \<Rightarrow> Printed output)"

definition main :: "args \<Rightarrow> world \<Rightarrow> call list \<times> outcome" where
  "main a w =
     (if test a then
        (let paper_info = get_test_paper_info (url a) in
         if \<not> info_truthy paper_info then
           ([], Exit1 [''Error: Test ID '' @ [CHR 0x27] @ url a @ [CHR 0x27]
                         @ '' not found. Available: 1, 2, 3'',
                       [CHR 0x0A] @ ''Test papers:'',
                       ''  1: Attention Is All You Need'',
                       ''  2: BERT'',
                       ''  3: CLIP''])
         else ([], print_output a paper_info))
      else if google_scholar a then
        (let paper_info = search_google_scholar w (url a);
             log = [Call_search_google_scholar (url a)]
         in if \<not> info_truthy paper_info
            then (log, Exit1 [''Error: Could not find paper on Google Scholar''])
            else (log, print_output a paper_info))
      else
        (case parse_url (url a) of
           None \<Rightarrow>
             ([], Exit1 [''Error: Unsupported URL format: '' @ url a,
                         ''Supported sources: arXiv, Semantic Scholar, OpenReview'',
                         ''Or use --google-scholar flag to search by title''])
         | Some (source, paper_id) \<Rightarrow>
             (case main_fetch a w source paper_id of
                (log, Inl e) \<Rightarrow> (log, Raised e)
              | (log, Inr paper_info) \<Rightarrow>
                  if \<not> info_truthy paper_info
                  then (log, Exit1 [''Error: Could not fetch paper information from '' @ source])
                  else (log, print_output a paper_info))))"

section \<open>The record normalizer of the specification\<close>

text \<open>
  Modelled from the spec: the program has no function that normalizes a record (\<open>main\<close>
  hands the dictionary of the source adapter to \<open>format_output\<close> as it is), so
  \<open>normalize\<close> follows sections 3 and 4.4 of the specification. A partial record is a
  \<open>paper_info\<close>; a canonical record has all five fields present; \<open>normalize\<close> fills every
  absent field with its sentinel and checks nothing else. The documented sentinels are
  \<open>N/A\<close> for the year and the citation count and \<open>Unknown\<close> for the venue; an absent author
  list becomes the empty list, which is displayed as \<open>Unknown Authors\<close>. The specification
  documents no sentinel for the title: it is the parameter \<open>title_sentinel\<close>.
\<close>

definition canonical :: "paper_info \<Rightarrow> bool" where
  "canonical r =
     (title r \<noteq> None \<and> authors r \<noteq> None \<and> year r \<noteq> None \<and> venue r \<noteq> None
      \<and> citations r \<noteq> None)"

definition fill :: "'a \<Rightarrow> 'a option \<Rightarrow> 'a option" where
  "fill sentinel field = (case field of None \<Rightarrow> Some sentinel | Some x \<Rightarrow> Some x)"

definition normalize :: "pyval \<Rightarrow> paper_info \<Rightarrow> paper_info" where
  "normalize title_sentinel r =
     \<lparr>title = fill title_sentinel (title r),
      authors = fill [] (authors r),
      year = fill (PStr ''N/A'') (year r),
      venue = fill (PStr ''Unknown'') (venue r),
      citations = fill (PStr ''N/A'') (citations r)\<rparr>"

section \<open>Sources that match a URL\<close>

text \<open>
  The tags of the sources whose pattern matches the URL, in the order in which \<open>parse_url\<close>
  tries the patterns. A URL matches exactly one source pattern when this list has one
  element.
\<close>

definition matching_sources :: "string \<Rightarrow> string list" where
  "matching_sources u =
     map fst (filter (\<lambda>(tag, pattern). pattern u \<noteq> None)
       [(''arxiv'', arxiv_pattern), (''semantic_scholar'', ss_pattern),
        (''openreview'', or_pattern), (''doi'', doi_pattern)])"

section \<open>Sample runs\<close>

text \<open>
  A record as \<open>fetch_arxiv_info\<close> builds it (the citation count is always \<open>'N/A'\<close>), a
  record as \<open>get_semantic_scholar_info\<close> builds it with a citation count of 10, a note of
  the OpenReview service, a world where every fetch returns these and the citation lookups
  of Semantic Scholar and of Google Scholar return the given values, and a command line
  with the given URL and \<open>--use-google-scholar-citations\<close> flag.
\<close>

definition arxiv_record :: paper_info where
  "arxiv_record =
     \<lparr>title = Some (PStr ''Attention Is All You Need''),
      authors = Some [''Ashish Vaswani'', ''Noam Shazeer''],
      year = Some (PStr ''2017''),
      venue = Some (PStr ''arXiv''),
      citations = Some (PStr ''N/A'')\<rparr>"

definition indexed_record :: paper_info where
  "indexed_record =
     \<lparr>title = Some (PStr ''Attention Is All You Need''),
      authors = Some [''Ashish Vaswani'', ''Noam Shazeer''],
      year = Some (PStr ''2017''),
      venue = Some (PStr ''NeurIPS''),
      citations = Some (PInt 10)\<rparr>"

definition sample_note :: openreview_note where
  "sample_note =
     \<lparr>content_title = Some (PStr ''Attention Is All You Need''),
      content_authors = Some [''Ashish Vaswani'', ''Noam Shazeer''],
      invitation = Some ''ICLR.cc/2019/Conference/-/Blind_Submission''\<rparr>"

definition sample_world :: "pyval \<Rightarrow> pyval \<Rightarrow> world" where
  "sample_world from_semantic_scholar from_google_scholar =
     \<lparr>fetch_arxiv_info = (\<lambda>_. Some arxiv_record),
      get_citations_from_semantic_scholar = (\<lambda>_. from_semantic_scholar),
      get_citations_from_google_scholar = (\<lambda>_. from_google_scholar),
      search_google_scholar = (\<lambda>_. None),
      get_semantic_scholar_info = (\<lambda>_. Some indexed_record),
      openreview_notes = (\<lambda>_. Some sample_note),
      get_citations_from_semantic_scholar_title = (\<lambda>_. from_semantic_scholar)\<rparr>"

definition sample_args :: "string \<Rightarrow> bool \<Rightarrow> args" where
  "sample_args u flag =
     \<lparr>url = u, max_authors = 3, test = False, google_scholar = False,
      use_google_scholar_citations = flag, debug = False\<rparr>"

text \<open>\<open>s.endswith(suffix)\<close>.\<close>

definition endswith :: "string \<Rightarrow> string \<Rightarrow> bool" where
  "endswith s suffix =
     (length suffix \<le> length s \<and> drop (length s - length suffix) s = suffix)"

text \<open>
  The display name in the words of the specification: the name is split on whitespace,
  the last token is the surname and the others are given names; the result is the surname,
  a comma, and the initial of every given name in order, each followed by a period,
  separated by spaces. A name of fewer than two tokens is displayed verbatim.
\<close>

definition display_name :: "string \<Rightarrow> string" where
  "display_name full_name =
     (let tokens = split full_name in
      if 2 \<le> length tokens
      then last tokens @ '', '' @ join '' '' (map (\<lambda>given. [hd given] @ ''.'') (butlast tokens))
      else full_name)"

section \<open>Properties of author formatting\<close>

lemma split_acc_nonempty: "p \<in> set (split_acc cur s) \<Longrightarrow> p \<noteq> []"
  by (induction cur s rule: split_acc.induct) (auto split: if_splits)

lemma split_nonempty: "p \<in> set (split s) \<Longrightarrow> p \<noteq> []"
  unfolding split_def by (rule split_acc_nonempty)

lemma join_period:
  "xs \<noteq> [] \<Longrightarrow> join ''. '' xs @ ''.'' = join '' '' (map (\<lambda>x. x @ ''.'') xs)"
  by (induction "''. ''" xs rule: join.induct) auto

lemma initials_display:
  assumes "1 < length parts"
  shows "initials_of parts @ ''.'' = join '' '' (map (\<lambda>given. [hd given] @ ''.'') (butlast parts))"
proof -
  from assms have ne: "map (\<lambda>p. [hd p]) (butlast parts) \<noteq> []"
    by (cases parts rule: rev_cases) auto
  show ?thesis
    unfolding initials_of_def using join_period [OF ne] by (simp add: comp_def)
qed

lemma endswith_append: "endswith (s @ suffix) suffix"
  by (simp add: endswith_def)

text \<open>
  C1, as the code has it. The two entries are \<open>Radford, A.\<close> and \<open>Kim, J. W.\<close>, joined by
  \<open>and\<close>; then \<open>rstrip('.')\<close> removes the final period, which \<open>format_output\<close> writes
  after the author string. The call returns \<open>Radford, A. and Kim, J. W\<close>.
\<close>

theorem format_authors_two_names:
  "format_authors [''Alec Radford'', ''Jong Wook Kim''] 3 = ''Radford, A. and Kim, J. W''"
  by code_simp

text \<open>
  C1, as the specification states it, fails: the call does not return
  \<open>Radford, A. and Kim, J. W.\<close> with a final period.
\<close>

theorem format_authors_two_names_not_spec:
  "format_authors [''Alec Radford'', ''Jong Wook Kim''] 3 \<noteq> ''Radford, A. and Kim, J. W.''"
  by code_simp

text \<open>
  C3, amended: for every non-empty author list whose length exceeds \<open>max_authors\<close>,
  \<open>format_authors\<close> returns the display name of the first author followed by \<open>et al\<close>,
  and the result does not end with a period. For the eight authors of "Attention Is All
  You Need" and \<open>max_authors = 3\<close> the result is \<open>Vaswani, A. et al\<close>.
\<close>

theorem format_authors_et_al:
  fixes authors :: "string list" and max_authors :: int
  assumes "authors \<noteq> []" and "max_authors < int (length authors)"
  shows "format_authors authors max_authors = display_name (hd authors) @ '' et al''
     \<and> endswith (format_authors authors max_authors) '' et al''
     \<and> \<not> endswith (format_authors authors max_authors) ''.''
     \<and> format_authors [''Ashish Vaswani'', ''Noam Shazeer'', ''Niki Parmar'',
          ''Jakob Uszkoreit'', ''Llion Jones'', ''Aidan N. Gomez'', ''Lukasz Kaiser'',
          ''Illia Polosukhin''] 3 = ''Vaswani, A. et al''"
proof -
  from assms(1) have hd0: "authors ! 0 = hd authors"
    by (cases authors) auto
  have eq: "format_authors authors max_authors = display_name (hd authors) @ '' et al''"
  proof (cases "1 < length (split (hd authors))")
    case True
    then have two: "2 \<le> length (split (hd authors))" by simp
    show ?thesis
      using assms True two initials_display [OF True]
      by (simp add: format_authors_def display_name_def hd0 Let_def)
  next
    case False
    then have "\<not> 2 \<le> length (split (hd authors))" by simp
    with assms False show ?thesis
      by (simp add: format_authors_def display_name_def hd0 Let_def)
  qed
  have e1: "endswith (format_authors authors max_authors) '' et al''"
    unfolding eq by (rule endswith_append)
  have e2: "\<not> endswith (format_authors authors max_authors) ''.''"
    unfolding eq by (simp add: endswith_def)
  have e3: "format_authors [''Ashish Vaswani'', ''Noam Shazeer'', ''Niki Parmar'',
          ''Jakob Uszkoreit'', ''Llion Jones'', ''Aidan N. Gomez'', ''Lukasz Kaiser'',
          ''Illia Polosukhin''] 3 = ''Vaswani, A. et al''"
    by code_simp
  from eq e1 e2 e3 show ?thesis by simp
qed

theorem format_authors_et_al_witness:
  "[''Alec Radford'', ''Jong Wook Kim''] \<noteq> ([] :: string list)
   \<and> (1 :: int) < int (length [''Alec Radford'', ''Jong Wook Kim''])
   \<and> format_authors [''Alec Radford'', ''Jong Wook Kim''] 1 = ''Radford, A. et al''"
proof -
  have h1: "[''Alec Radford'', ''Jong Wook Kim''] \<noteq> ([] :: string list)" by simp
  have h2: "(1 :: int) < int (length [''Alec Radford'', ''Jong Wook Kim''])" by simp
  have d: "display_name ''Alec Radford'' = ''Radford, A.''" by code_simp
  from format_authors_et_al [OF h1 h2] d h1 h2 show ?thesis by simp
qed

text \<open>
  C3, as the specification states it, fails for the empty list and a negative
  \<open>max_authors\<close>: the length 0 exceeds -1, and the result is \<open>Unknown Authors\<close>, which
  names no author and does not end with \<open>et al\<close>.
\<close>

theorem format_authors_et_al_empty_list:
  "(-1 :: int) < int (length ([] :: string list))
   \<and> format_authors [] (-1) = ''Unknown Authors''
   \<and> \<not> endswith (format_authors [] (-1)) '' et al''"
  by (simp add: format_authors_def endswith_def)

text \<open>
  C4: for the empty author list and any \<open>max_authors\<close>, \<open>format_authors\<close> returns the
  literal \<open>Unknown Authors\<close>.
\<close>

theorem format_authors_empty:
  fixes max_authors :: int
  shows "format_authors [] max_authors = ''Unknown Authors''"
  by (simp add: format_authors_def)

section \<open>Properties of record formatting\<close>

lemma nat_digits_small: "n < 10 \<Longrightarrow> nat_digits n = [''0123456789'' ! n]"
  by (subst nat_digits.simps) simp

lemma nat_digits_large:
  "\<not> n < 10 \<Longrightarrow> nat_digits n = nat_digits (n div 10) @ [''0123456789'' ! (n mod 10)]"
  by (subst nat_digits.simps) simp

lemma vaswani_et_al:
  "format_authors [''Ashish Vaswani'', ''Noam Shazeer'', ''Niki Parmar'',
     ''Jakob Uszkoreit'', ''Llion Jones'', ''Aidan N. Gomez'', ''Lukasz Kaiser'',
     ''Illia Polosukhin''] 3 = ''Vaswani, A. et al''"
  by code_simp

text \<open>
  C2: for the record of test paper 1 and \<open>max_authors = 3\<close>, \<open>format_output\<close> returns the line
  \<open>**Attention Is All You Need** Vaswani, A. et al. 2017. NeurIPS. Citations: 98234\<close>, and
  a run with \<open>--test\<close> and the id \<open>1\<close> prints this line without calling any remote
  service.
\<close>

theorem test_paper_1_output:
  "format_output (get_test_paper_info ''1'') 3
     = Inr ''**Attention Is All You Need** Vaswani, A. et al. 2017. NeurIPS. Citations: 98234''
   \<and> main \<lparr>url = ''1'', max_authors = 3, test = True, google_scholar = g,
            use_google_scholar_citations = u, debug = dbg\<rparr> w
     = ([], Printed
         ''**Attention Is All You Need** Vaswani, A. et al. 2017. NeurIPS. Citations: 98234'')"
proof -
  have c: "str_int 98234 = ''98234''"
    by (simp add: str_int_def nat_digits_small nat_digits_large)
  have t: "info_truthy (get_test_paper_info ''1'')"
    by (simp add: get_test_paper_info_def empty_info_def)
  have f: "format_output (get_test_paper_info ''1'') 3
     = Inr ''**Attention Is All You Need** Vaswani, A. et al. 2017. NeurIPS. Citations: 98234''"
    by (simp add: format_output_def get_test_paper_info_def empty_info_def vaswani_et_al c)
  have m: "main \<lparr>url = ''1'', max_authors = 3, test = True, google_scholar = g,
            use_google_scholar_citations = u, debug = dbg\<rparr> w
     = ([], Printed
         ''**Attention Is All You Need** Vaswani, A. et al. 2017. NeurIPS. Citations: 98234'')"
    using t f by (simp add: main_def print_output_def)
  from f m show ?thesis by simp
qed

text \<open>
  C10: for \<open>None\<close> and for the empty dictionary, \<open>format_output\<close> returns the literal
  \<open>Error: Could not fetch paper information\<close> and raises nothing.
\<close>

theorem format_output_falsy:
  fixes max_authors :: int
  assumes "\<not> info_truthy paper_info"
  shows "format_output paper_info max_authors = Inr ''Error: Could not fetch paper information''"
  using assms by (cases paper_info) (simp_all add: format_output_def)

theorem format_output_falsy_witness:
  "\<not> info_truthy None \<and> \<not> info_truthy (Some empty_info)
   \<and> format_output None 3 = Inr ''Error: Could not fetch paper information''
   \<and> format_output (Some empty_info) 3 = Inr ''Error: Could not fetch paper information''"
proof -
  have h1: "\<not> info_truthy None" by simp
  have h2: "\<not> info_truthy (Some empty_info)" by simp
  from format_output_falsy [OF h1, of 3] format_output_falsy [OF h2, of 3] h1 h2
  show ?thesis by simp
qed

section \<open>Properties of URL classification\<close>

lemma url_arxiv_abs:
  "parse_url ''https://arxiv.org/abs/1706.03762'' = Some (''arxiv'', ''1706.03762'')"
  by code_simp

lemma url_arxiv_pdf:
  "parse_url ''https://arxiv.org/pdf/1706.03762v5'' = Some (''arxiv'', ''1706.03762'')"
  by code_simp

lemma url_semantic_scholar:
  "parse_url ''https://www.semanticscholar.org/paper/204e3073870f''
     = Some (''semantic_scholar'', ''204e3073870f'')"
  by code_simp

lemma url_semantic_scholar_slug:
  "parse_url ''https://www.semanticscholar.org/paper/Attention-Is-All/204e3073870f''
     = Some (''semantic_scholar'', ''204e3073870f'')"
  by code_simp

lemma url_openreview_forum:
  "parse_url ''https://openreview.net/forum?id=rJl-b3RcF7'' = Some (''openreview'', ''rJl-b3RcF7'')"
  by code_simp

lemma url_openreview_pdf:
  "parse_url ''https://openreview.net/pdf?id=H1_x9'' = Some (''openreview'', ''H1_x9'')"
  by code_simp

lemma url_doi:
  "parse_url ''https://doi.org/10.1000/xyz123'' = Some (''doi'', ''10.1000/xyz123'')"
  by code_simp

lemma url_doi_and_arxiv:
  "parse_url ''https://doi.org/10.1000/arxiv.org/abs/1234.5678'' = Some (''arxiv'', ''1234.5678'')"
  by code_simp

lemma url_unsupported: "parse_url ''https://example.org/paper/1706.03762'' = None"
  by code_simp

lemma matching_arxiv: "matching_sources ''https://arxiv.org/abs/1706.03762'' = [''arxiv'']"
  by code_simp

lemma matching_semantic_scholar:
  "matching_sources ''https://www.semanticscholar.org/paper/204e3073870f''
     = [''semantic_scholar'']"
  by code_simp

lemma matching_openreview:
  "matching_sources ''https://openreview.net/forum?id=rJl-b3RcF7'' = [''openreview'']"
  by code_simp

lemma matching_doi: "matching_sources ''https://doi.org/10.1000/xyz123'' = [''doi'']"
  by code_simp

lemma matching_doi_and_arxiv:
  "matching_sources ''https://doi.org/10.1000/arxiv.org/abs/1234.5678'' = [''arxiv'', ''doi'']"
  by code_simp

text \<open>
  C5: when exactly one of the four source patterns matches a URL, \<open>parse_url\<close> returns the
  tag of that source and no other tag. For every URL it returns the tag and the id of the
  first pattern that matches, in the order arXiv, Semantic Scholar, OpenReview, DOI, and
  \<open>None\<close> when no pattern matches. Each of the four tags is returned for a URL of its
  source, with the id that the pattern captures, and a URL that matches the DOI pattern
  and the arXiv pattern is classified as arXiv.
\<close>

theorem parse_url_exactly_one:
  "(matching_sources u = [tag] \<longrightarrow>
      map_option fst (parse_url u) = Some tag
      \<and> (\<forall>other. map_option fst (parse_url u) = Some other \<longrightarrow> other = tag))
   \<and> map_option fst (parse_url u)
       = (case matching_sources u of [] \<Rightarrow> None | first # _ \<Rightarrow> Some first)
   \<and> (\<forall>g. arxiv_pattern u = Some g \<longrightarrow> parse_url u = Some (''arxiv'', g))
   \<and> (\<forall>g. arxiv_pattern u = None \<and> ss_pattern u = Some g \<longrightarrow>
         parse_url u = Some (''semantic_scholar'', g))
   \<and> (\<forall>g. arxiv_pattern u = None \<and> ss_pattern u = None \<and> or_pattern u = Some g \<longrightarrow>
         parse_url u = Some (''openreview'', g))
   \<and> (\<forall>g. arxiv_pattern u = None \<and> ss_pattern u = None \<and> or_pattern u = None
         \<and> doi_pattern u = Some g \<longrightarrow> parse_url u = Some (''doi'', g))
   \<and> (arxiv_pattern u = None \<and> ss_pattern u = None \<and> or_pattern u = None
         \<and> doi_pattern u = None \<longrightarrow> parse_url u = None)
   \<and> parse_url ''https://arxiv.org/abs/1706.03762'' = Some (''arxiv'', ''1706.03762'')
   \<and> parse_url ''https://arxiv.org/pdf/1706.03762v5'' = Some (''arxiv'', ''1706.03762'')
   \<and> parse_url ''https://www.semanticscholar.org/paper/204e3073870f''
       = Some (''semantic_scholar'', ''204e3073870f'')
   \<and> parse_url ''https://www.semanticscholar.org/paper/Attention-Is-All/204e3073870f''
       = Some (''semantic_scholar'', ''204e3073870f'')
   \<and> parse_url ''https://openreview.net/forum?id=rJl-b3RcF7''
       = Some (''openreview'', ''rJl-b3RcF7'')
   \<and> parse_url ''https://openreview.net/pdf?id=H1_x9'' = Some (''openreview'', ''H1_x9'')
   \<and> parse_url ''https://doi.org/10.1000/xyz123'' = Some (''doi'', ''10.1000/xyz123'')
   \<and> parse_url ''https://doi.org/10.1000/arxiv.org/abs/1234.5678''
       = Some (''arxiv'', ''1234.5678'')
   \<and> parse_url ''https://example.org/paper/1706.03762'' = None"
proof -
  have first: "map_option fst (parse_url u)
         = (case matching_sources u of [] \<Rightarrow> None | first # _ \<Rightarrow> Some first)"
    by (simp add: parse_url_def matching_sources_def split: option.splits)
  have one: "matching_sources u = [tag] \<longrightarrow>
      map_option fst (parse_url u) = Some tag
      \<and> (\<forall>other. map_option fst (parse_url u) = Some other \<longrightarrow> other = tag)"
  proof
    assume only: "matching_sources u = [tag]"
    from first only have a: "map_option fst (parse_url u) = Some tag" by simp
    have b: "\<forall>other. map_option fst (parse_url u) = Some other \<longrightarrow> other = tag"
      unfolding a by simp
    from a b show "map_option fst (parse_url u) = Some tag
      \<and> (\<forall>other. map_option fst (parse_url u) = Some other \<longrightarrow> other = tag)" ..
  qed
  have p1: "\<forall>g. arxiv_pattern u = Some g \<longrightarrow> parse_url u = Some (''arxiv'', g)"
    by (simp add: parse_url_def)
  have p2: "\<forall>g. arxiv_pattern u = None \<and> ss_pattern u = Some g \<longrightarrow>
         parse_url u = Some (''semantic_scholar'', g)"
    by (simp add: parse_url_def)
  have p3: "\<forall>g. arxiv_pattern u = None \<and> ss_pattern u = None \<and> or_pattern u = Some g \<longrightarrow>
         parse_url u = Some (''openreview'', g)"
    by (simp add: parse_url_def)
  have p4: "\<forall>g. arxiv_pattern u = None \<and> ss_pattern u = None \<and> or_pattern u = None
         \<and> doi_pattern u = Some g \<longrightarrow> parse_url u = Some (''doi'', g)"
    by (simp add: parse_url_def)
  have p5: "arxiv_pattern u = None \<and> ss_pattern u = None \<and> or_pattern u = None
         \<and> doi_pattern u = None \<longrightarrow> parse_url u = None"
    by (simp add: parse_url_def)
  show ?thesis
    by (intro conjI) (rule one, rule first, rule p1, rule p2, rule p3, rule p4, rule p5,
      rule url_arxiv_abs, rule url_arxiv_pdf, rule url_semantic_scholar,
      rule url_semantic_scholar_slug, rule url_openreview_forum, rule url_openreview_pdf,
      rule url_doi, rule url_doi_and_arxiv, rule url_unsupported)
qed

theorem parse_url_exactly_one_witness:
  "matching_sources ''https://arxiv.org/abs/1706.03762'' = [''arxiv'']
   \<and> map_option fst (parse_url ''https://arxiv.org/abs/1706.03762'') = Some ''arxiv''
   \<and> matching_sources ''https://www.semanticscholar.org/paper/204e3073870f''
       = [''semantic_scholar'']
   \<and> map_option fst (parse_url ''https://www.semanticscholar.org/paper/204e3073870f'')
       = Some ''semantic_scholar''
   \<and> matching_sources ''https://openreview.net/forum?id=rJl-b3RcF7'' = [''openreview'']
   \<and> map_option fst (parse_url ''https://openreview.net/forum?id=rJl-b3RcF7'')
       = Some ''openreview''
   \<and> matching_sources ''https://doi.org/10.1000/xyz123'' = [''doi'']
   \<and> map_option fst (parse_url ''https://doi.org/10.1000/xyz123'') = Some ''doi''
   \<and> matching_sources ''https://doi.org/10.1000/arxiv.org/abs/1234.5678'' = [''arxiv'', ''doi'']
   \<and> map_option fst (parse_url ''https://doi.org/10.1000/arxiv.org/abs/1234.5678'')
       = Some ''arxiv''"
proof -
  from parse_url_exactly_one [of "''https://arxiv.org/abs/1706.03762''" "''arxiv''"]
    matching_arxiv
  have a: "map_option fst (parse_url ''https://arxiv.org/abs/1706.03762'') = Some ''arxiv''"
    by blast
  from parse_url_exactly_one [of "''https://www.semanticscholar.org/paper/204e3073870f''"
      "''semantic_scholar''"] matching_semantic_scholar
  have b: "map_option fst (parse_url ''https://www.semanticscholar.org/paper/204e3073870f'')
       = Some ''semantic_scholar''"
    by blast
  from parse_url_exactly_one [of "''https://openreview.net/forum?id=rJl-b3RcF7''"
      "''openreview''"] matching_openreview
  have c: "map_option fst (parse_url ''https://openreview.net/forum?id=rJl-b3RcF7'')
       = Some ''openreview''"
    by blast
  from parse_url_exactly_one [of "''https://doi.org/10.1000/xyz123''" "''doi''"] matching_doi
  have d: "map_option fst (parse_url ''https://doi.org/10.1000/xyz123'') = Some ''doi''"
    by blast
  from parse_url_exactly_one [of "''https://doi.org/10.1000/arxiv.org/abs/1234.5678''" tag]
    matching_doi_and_arxiv
  have e: "map_option fst (parse_url ''https://doi.org/10.1000/arxiv.org/abs/1234.5678'')
       = Some ''arxiv''"
    by simp
  show ?thesis
    by (intro conjI) (rule matching_arxiv, rule a, rule matching_semantic_scholar, rule b,
      rule matching_openreview, rule c, rule matching_doi, rule d,
      rule matching_doi_and_arxiv, rule e)
qed

section \<open>Properties of citation enrichment\<close>

lemma citations_present_truthy: "citations d = Some c \<Longrightarrow> info_truthy (Some d)"
  by (auto simp: empty_info_def)

text \<open>
  C6: on the arXiv path, when the record of the adapter has the citation count \<open>'N/A'\<close> and
  the first citation source in the order chosen by \<open>--use-google-scholar-citations\<close> returns
  an integer, the record gets this integer as its citation count, the calls made are the
  fetch and the call of the first source only, and the result is the same whatever the
  second source would return.
\<close>

theorem enrichment_short_circuits:
  fixes a :: args and w :: world
  assumes fetched: "fetch_arxiv_info w paper_id = Some d"
    and na: "citations d = Some (PStr ''N/A'')"
    and title_present: "use_google_scholar_citations a \<Longrightarrow> title d = Some t"
    and first:
      "(if use_google_scholar_citations a then get_citations_from_google_scholar w t
        else get_citations_from_semantic_scholar w paper_id) = PInt n"
  shows "main_fetch a w ''arxiv'' paper_id
           = ([Call_fetch_arxiv_info paper_id,
               if use_google_scholar_citations a then Call_get_citations_from_google_scholar t
               else Call_get_citations_from_semantic_scholar paper_id],
              Inr (Some (d\<lparr>citations := Some (PInt n)\<rparr>)))
     \<and> (use_google_scholar_citations a \<longrightarrow>
          (\<forall>f. main_fetch a (w\<lparr>get_citations_from_semantic_scholar := f\<rparr>) ''arxiv'' paper_id
                = main_fetch a w ''arxiv'' paper_id))
     \<and> (\<not> use_google_scholar_citations a \<longrightarrow>
          (\<forall>f. main_fetch a (w\<lparr>get_citations_from_google_scholar := f\<rparr>) ''arxiv'' paper_id
                = main_fetch a w ''arxiv'' paper_id))"
proof (cases "use_google_scholar_citations a")
  case True
  with title_present first have t: "title d = Some t"
    and c: "get_citations_from_google_scholar w t = PInt n" by simp_all
  from True fetched na t c citations_present_truthy [OF na] show ?thesis
    by (simp add: main_fetch_def main_arxiv_def Let_def)
next
  case False
  with first have c: "get_citations_from_semantic_scholar w paper_id = PInt n" by simp
  from False fetched na c citations_present_truthy [OF na] show ?thesis
    by (simp add: main_fetch_def main_arxiv_def Let_def)
qed

theorem enrichment_short_circuits_witness:
  "fetch_arxiv_info (sample_world (PInt 42) (PInt 7)) ''1706.03762'' = Some arxiv_record
   \<and> citations arxiv_record = Some (PStr ''N/A'')
   \<and> get_citations_from_semantic_scholar (sample_world (PInt 42) (PInt 7)) ''1706.03762''
       = PInt 42
   \<and> main_fetch (sample_args ''https://arxiv.org/abs/1706.03762'' False)
        (sample_world (PInt 42) (PInt 7)) ''arxiv'' ''1706.03762''
       = ([Call_fetch_arxiv_info ''1706.03762'',
           Call_get_citations_from_semantic_scholar ''1706.03762''],
          Inr (Some (arxiv_record\<lparr>citations := Some (PInt 42)\<rparr>)))
   \<and> get_citations_from_google_scholar (sample_world (PInt 7) (PInt 42))
        (PStr ''Attention Is All You Need'') = PInt 42
   \<and> main_fetch (sample_args ''https://arxiv.org/abs/1706.03762'' True)
        (sample_world (PInt 7) (PInt 42)) ''arxiv'' ''1706.03762''
       = ([Call_fetch_arxiv_info ''1706.03762'',
           Call_get_citations_from_google_scholar (PStr ''Attention Is All You Need'')],
          Inr (Some (arxiv_record\<lparr>citations := Some (PInt 42)\<rparr>)))"
proof -
  let ?a = "sample_args ''https://arxiv.org/abs/1706.03762'' False"
  let ?w = "sample_world (PInt 42) (PInt 7)"
  let ?a' = "sample_args ''https://arxiv.org/abs/1706.03762'' True"
  let ?w' = "sample_world (PInt 7) (PInt 42)"
  let ?t = "PStr ''Attention Is All You Need''"
  have h1: "fetch_arxiv_info ?w ''1706.03762'' = Some arxiv_record"
    and h1': "fetch_arxiv_info ?w' ''1706.03762'' = Some arxiv_record"
    by (simp_all add: sample_world_def)
  have h2: "citations arxiv_record = Some (PStr ''N/A'')"
    by (simp add: arxiv_record_def)
  have t: "title arxiv_record = Some ?t"
    by (simp add: arxiv_record_def)
  have flag: "\<not> use_google_scholar_citations ?a"
    and flag': "use_google_scholar_citations ?a'"
    by (simp_all add: sample_args_def)
  have c: "get_citations_from_semantic_scholar ?w ''1706.03762'' = PInt 42"
    and c': "get_citations_from_google_scholar ?w' ?t = PInt 42"
    by (simp_all add: sample_world_def)
  have h4: "(if use_google_scholar_citations ?a
             then get_citations_from_google_scholar ?w ?t
             else get_citations_from_semantic_scholar ?w ''1706.03762'') = PInt 42"
    using flag c by simp
  have h4': "(if use_google_scholar_citations ?a'
             then get_citations_from_google_scholar ?w' ?t
             else get_citations_from_semantic_scholar ?w' ''1706.03762'') = PInt 42"
    using flag' c' by simp
  from enrichment_short_circuits [OF h1 h2 t h4] enrichment_short_circuits [OF h1' h2 t h4']
    flag flag' h1 h2 c c'
  show ?thesis by simp
qed

lemma two_authors:
  "format_authors [''Ashish Vaswani'', ''Noam Shazeer''] 3 = ''Vaswani, A. and Shazeer, N''"
  by code_simp





text \<open>
  C8: on the arXiv path, when the record of the adapter has the citation count \<open>'N/A'\<close>
  and both citation sources return \<open>'N/A'\<close>, both are called in the order chosen by the
  flag, the record is unchanged (its citation count remains \<open>'N/A'\<close>), and the run prints
  the formatted line, which ends with \<open>Citations: N/A\<close>; whatever the venue holds.
\<close>

theorem enrichment_exhausted:
  fixes a :: args and w :: world
  assumes parsed: "parse_url (url a) = Some (''arxiv'', paper_id)"
    and mode: "\<not> test a" "\<not> google_scholar a"
    and fetched: "fetch_arxiv_info w paper_id = Some d"
    and fields: "title d = Some t" "authors d = Some names" "year d = Some y" "venue d = Some v"
    and na: "citations d = Some (PStr ''N/A'')"
    and ss: "get_citations_from_semantic_scholar w paper_id = PStr ''N/A''"
    and gs: "get_citations_from_google_scholar w t = PStr ''N/A''"
  shows "main_fetch a w ''arxiv'' paper_id
           = (if use_google_scholar_citations a
              then [Call_fetch_arxiv_info paper_id, Call_get_citations_from_google_scholar t,
                    Call_get_citations_from_semantic_scholar paper_id]
              else [Call_fetch_arxiv_info paper_id,
                    Call_get_citations_from_semantic_scholar paper_id,
                    Call_get_citations_from_google_scholar t],
              Inr (Some d))
     \<and> snd (main a w)
           = Printed (''**'' @ py_str t @ ''** '' @ format_authors names (max_authors a) @ ''. ''
                      @ py_str y @ ''. '' @ py_str v @ ''. Citations: N/A'')"
proof -
  have truthy: "info_truthy (Some d)"
    using na by (rule citations_present_truthy)
  have f: "main_fetch a w ''arxiv'' paper_id
           = (if use_google_scholar_citations a
              then [Call_fetch_arxiv_info paper_id, Call_get_citations_from_google_scholar t,
                    Call_get_citations_from_semantic_scholar paper_id]
              else [Call_fetch_arxiv_info paper_id,
                    Call_get_citations_from_semantic_scholar paper_id,
                    Call_get_citations_from_google_scholar t],
              Inr (Some d))"
    using fetched fields(1) na ss gs truthy
    by (simp add: main_fetch_def main_arxiv_def Let_def)
  have p: "print_output a (Some d)
           = Printed (''**'' @ py_str t @ ''** '' @ format_authors names (max_authors a) @ ''. ''
                      @ py_str y @ ''. '' @ py_str v @ ''. Citations: N/A'')"
    using fields na truthy by (simp add: print_output_def format_output_def)
  have m: "snd (main a w)
           = Printed (''**'' @ py_str t @ ''** '' @ format_authors names (max_authors a) @ ''. ''
                      @ py_str y @ ''. '' @ py_str v @ ''. Citations: N/A'')"
    unfolding main_def using mode parsed truthy by (simp add: f p)
  from f m show ?thesis by simp
qed

theorem enrichment_exhausted_witness:
  "snd (main (sample_args ''https://arxiv.org/abs/1706.03762'' False)
          (sample_world (PStr ''N/A'') (PStr ''N/A'')))
     = Printed ''**Attention Is All You Need** Vaswani, A. and Shazeer, N. 2017. arXiv. Citations: N/A''
   \<and> main_fetch (sample_args ''https://arxiv.org/abs/1706.03762'' False)
        (sample_world (PStr ''N/A'') (PStr ''N/A'')) ''arxiv'' ''1706.03762''
     = ([Call_fetch_arxiv_info ''1706.03762'',
         Call_get_citations_from_semantic_scholar ''1706.03762'',
         Call_get_citations_from_google_scholar (PStr ''Attention Is All You Need'')],
        Inr (Some arxiv_record))"
proof -
  let ?a = "sample_args ''https://arxiv.org/abs/1706.03762'' False"
  let ?w = "sample_world (PStr ''N/A'') (PStr ''N/A'')"
  have parsed: "parse_url (url ?a) = Some (''arxiv'', ''1706.03762'')"
    by (simp add: sample_args_def url_arxiv_abs)
  have mode: "\<not> test ?a" "\<not> google_scholar ?a"
    by (simp_all add: sample_args_def)
  have flag: "\<not> use_google_scholar_citations ?a"
    and limit: "max_authors ?a = 3"
    by (simp_all add: sample_args_def)
  have fetched: "fetch_arxiv_info ?w ''1706.03762'' = Some arxiv_record"
    by (simp add: sample_world_def)
  have fields: "title arxiv_record = Some (PStr ''Attention Is All You Need'')"
    "authors arxiv_record = Some [''Ashish Vaswani'', ''Noam Shazeer'']"
    "year arxiv_record = Some (PStr ''2017'')" "venue arxiv_record = Some (PStr ''arXiv'')"
    by (simp_all add: arxiv_record_def)
  have na: "citations arxiv_record = Some (PStr ''N/A'')"
    by (simp add: arxiv_record_def)
  have ss: "get_citations_from_semantic_scholar ?w ''1706.03762'' = PStr ''N/A''"
    by (simp add: sample_world_def)
  have gs: "get_citations_from_google_scholar ?w (PStr ''Attention Is All You Need'')
      = PStr ''N/A''"
    by (simp add: sample_world_def)
  from enrichment_exhausted [OF parsed mode fetched fields na ss gs] flag limit two_authors
  show ?thesis by simp
qed

section \<open>Properties of the record normalizer of the specification\<close>

lemma fill_present: "field \<noteq> None \<Longrightarrow> fill sentinel field = field"
  by (cases field) (simp_all add: fill_def)

lemma fill_absent: "fill sentinel None = Some sentinel"
  by (simp add: fill_def)

lemma fill_not_none: "fill sentinel field \<noteq> None"
  by (cases field) (simp_all add: fill_def)

text \<open>
  C9: \<open>normalize\<close> returns a canonical record in which every absent field holds its
  sentinel and every present field is unchanged; it returns a canonical record unchanged,
  and so it is idempotent.
\<close>

theorem normalize_fills_and_is_idempotent:
  "canonical (normalize title_sentinel r)
   \<and> (title r = None \<longrightarrow> title (normalize title_sentinel r) = Some title_sentinel)
   \<and> (authors r = None \<longrightarrow> authors (normalize title_sentinel r) = Some [])
   \<and> (year r = None \<longrightarrow> year (normalize title_sentinel r) = Some (PStr ''N/A''))
   \<and> (venue r = None \<longrightarrow> venue (normalize title_sentinel r) = Some (PStr ''Unknown''))
   \<and> (citations r = None \<longrightarrow> citations (normalize title_sentinel r) = Some (PStr ''N/A''))
   \<and> (title r \<noteq> None \<longrightarrow> title (normalize title_sentinel r) = title r)
   \<and> (authors r \<noteq> None \<longrightarrow> authors (normalize title_sentinel r) = authors r)
   \<and> (year r \<noteq> None \<longrightarrow> year (normalize title_sentinel r) = year r)
   \<and> (venue r \<noteq> None \<longrightarrow> venue (normalize title_sentinel r) = venue r)
   \<and> (citations r \<noteq> None \<longrightarrow> citations (normalize title_sentinel r) = citations r)
   \<and> (canonical r \<longrightarrow> normalize title_sentinel r = r)
   \<and> normalize title_sentinel (normalize title_sentinel r) = normalize title_sentinel r"
proof -
  have c: "canonical (normalize title_sentinel r)"
    by (simp add: canonical_def normalize_def fill_not_none)
  have absent: "title r = None \<longrightarrow> title (normalize title_sentinel r) = Some title_sentinel"
    "authors r = None \<longrightarrow> authors (normalize title_sentinel r) = Some []"
    "year r = None \<longrightarrow> year (normalize title_sentinel r) = Some (PStr ''N/A'')"
    "venue r = None \<longrightarrow> venue (normalize title_sentinel r) = Some (PStr ''Unknown'')"
    "citations r = None \<longrightarrow> citations (normalize title_sentinel r) = Some (PStr ''N/A'')"
    by (simp_all add: normalize_def fill_absent)
  have present: "title r \<noteq> None \<longrightarrow> title (normalize title_sentinel r) = title r"
    "authors r \<noteq> None \<longrightarrow> authors (normalize title_sentinel r) = authors r"
    "year r \<noteq> None \<longrightarrow> year (normalize title_sentinel r) = year r"
    "venue r \<noteq> None \<longrightarrow> venue (normalize title_sentinel r) = venue r"
    "citations r \<noteq> None \<longrightarrow> citations (normalize title_sentinel r) = citations r"
    by (simp_all add: normalize_def fill_present)
  have unchanged: "normalize title_sentinel r' = r'" if "canonical r'" for r'
    using that by (simp add: canonical_def normalize_def fill_present)
  have idem: "normalize title_sentinel (normalize title_sentinel r) = normalize title_sentinel r"
    using c by (rule unchanged)
  from c absent present unchanged [of r] idem show ?thesis by blast
qed

theorem normalize_fills_and_is_idempotent_witness:
  "canonical arxiv_record
   \<and> normalize (PStr ''Unknown'') arxiv_record = arxiv_record
   \<and> venue (empty_info\<lparr>title := Some (PStr ''Attention Is All You Need'')\<rparr>) = None
   \<and> normalize (PStr ''Unknown'') (empty_info\<lparr>title := Some (PStr ''Attention Is All You Need'')\<rparr>)
       = \<lparr>title = Some (PStr ''Attention Is All You Need''), authors = Some [],
          year = Some (PStr ''N/A''), venue = Some (PStr ''Unknown''),
          citations = Some (PStr ''N/A'')\<rparr>"
proof -
  have h: "canonical arxiv_record"
    by (simp add: canonical_def arxiv_record_def)
  let ?p = "empty_info\<lparr>title := Some (PStr ''Attention Is All You Need'')\<rparr>"
  have fields: "title ?p = Some (PStr ''Attention Is All You Need'')" "authors ?p = None"
    "year ?p = None" "venue ?p = None" "citations ?p = None"
    by (simp_all add: empty_info_def)
  have eq: "r = \<lparr>title = title r, authors = authors r, year = year r, venue = venue r,
      citations = citations r\<rparr>" for r :: paper_info
    by simp
  from normalize_fills_and_is_idempotent [of "PStr ''Unknown''" arxiv_record] h
  have a: "normalize (PStr ''Unknown'') arxiv_record = arxiv_record" by simp
  from normalize_fills_and_is_idempotent [of "PStr ''Unknown''" ?p] fields
  have b: "normalize (PStr ''Unknown'') ?p
       = \<lparr>title = Some (PStr ''Attention Is All You Need''), authors = Some [],
          year = Some (PStr ''N/A''), venue = Some (PStr ''Unknown''),
          citations = Some (PStr ''N/A'')\<rparr>"
    by (subst eq [of "normalize (PStr ''Unknown'') ?p"]) simp
  from h a fields(4) b show ?thesis by simp
qed

end
